theory Spec2Isabelle
  imports Complex_Main
begin

section \<open>Order settlement of the game shop backend (server.js)\<close>

text \<open>
  The development embeds the settlement handlers of \<^verbatim>\<open>src/server.js\<close>:
  \<^verbatim>\<open>POST /api/orders/buy\<close>, \<^verbatim>\<open>POST /api/users/cart/checkout\<close>,
  \<^verbatim>\<open>POST /api/orders\<close> and \<^verbatim>\<open>GET /api/discounts/check/:code\<close>.

  Conventions of the embedding.
  \<^item> A JavaScript number is a rational: the finite values are kept exactly, NaN and the
    infinities are left out, and \<^verbatim>\<open>/\<close> is exact division.
  \<^item> The Firestore collections are fields of one \<open>state\<close> record; a handler takes the
    state and returns its response together with the new state.
  \<^item> A document of \<^verbatim>\<open>discounts\<close> is identified by its position in the list; a query
    \<^verbatim>\<open>where("code", "==", c).limit(1)\<close> returns the first position that matches.
  \<^item> Timestamps written for bookkeeping only (\<^verbatim>\<open>createdAt\<close>, \<^verbatim>\<open>updatedAt\<close>,
    \<^verbatim>\<open>lastUsedAt\<close>, \<^verbatim>\<open>addedAt\<close>) are not stored; no handler below reads them.
  \<^item> Strings are ASCII: \<open>toUpperCase\<close> and \<open>trim\<close> below act on the letters a to z and
    on the ASCII white space only, where JavaScript also maps letters and strips white
    space beyond ASCII. A code or request text with such characters is outside the model.
  \<^item> What the store or the HTTP layer may do on its own (abort a transaction, fail an
    update, throw while the response is sent) is an explicit boolean input of the handler.
\<close>

subsection \<open>JavaScript values\<close>

type_synonym number = rat
type_synonym user_id = string
type_synonym game_id = string

text \<open>\<^verbatim>\<open>x || d\<close> for a number \<open>x\<close>: zero is the only falsy finite number.\<close>

definition js_or :: "number \<Rightarrow> number \<Rightarrow> number" where
  "js_or x d = (if x = 0 then d else x)"

text \<open>\<^verbatim>\<open>String.prototype.toUpperCase\<close> on ASCII letters.\<close>

definition upper_char :: "char \<Rightarrow> char" where
  "upper_char c =
     (let n = (of_char c :: nat) in if 97 \<le> n \<and> n \<le> 122 then char_of (n - 32) else c)"

definition toUpperCase :: "string \<Rightarrow> string" where
  "toUpperCase s = map upper_char s"

text \<open>\<^verbatim>\<open>String.prototype.trim\<close> on ASCII white space.\<close>

definition is_space :: "char \<Rightarrow> bool" where
  "is_space c = ((of_char c :: nat) \<in> {9, 10, 11, 12, 13, 32})"

definition trim :: "string \<Rightarrow> string" where
  "trim s = rev (dropWhile is_space (rev (dropWhile is_space s)))"

text \<open>\<^verbatim>\<open>FieldValue.arrayUnion\<close> and \<^verbatim>\<open>FieldValue.arrayRemove\<close> with one element.\<close>

definition arrayUnion :: "'a list \<Rightarrow> 'a \<Rightarrow> 'a list" where
  "arrayUnion xs x = (if x \<in> set xs then xs else xs @ [x])"

definition arrayRemove :: "'a list \<Rightarrow> 'a \<Rightarrow> 'a list" where
  "arrayRemove xs x = filter (\<lambda>y. y \<noteq> x) xs"

subsection \<open>Documents and collections\<close>

record user =
  wallet :: number

record game =
  game_name :: string
  game_price :: number
  game_totalSold :: number
  game_isActive :: bool

record order =
  o_userId :: user_id
  o_gameId :: game_id
  o_gameName :: string
  o_quantity :: number
  o_price :: number
  o_status :: string
  o_redeemCode :: "string option"

record discount =
  d_code :: string
  d_type :: string
  d_value :: number
  d_minSpend :: number
  d_maxDiscount :: "number option"
  d_expireAt :: "int option"
  d_isActive :: bool
  d_usedBy :: "user_id list"
  d_usedCount :: number
  d_usageLimit :: number

record state =
  users :: "user_id \<rightharpoonup> user"
  games :: "game_id \<rightharpoonup> game"
  orders :: "order list"
  library :: "user_id \<Rightarrow> game_id set"
  cart :: "user_id \<Rightarrow> (game_id \<times> number) list"
  discounts :: "discount list"

datatype error =
    MissingGameId
  | UserNotFound
  | GameNotFound
  | InsufficientFunds
  | EmptyCart
  | AllOwned
  | ServerError

subsection \<open>POST /api/orders/buy\<close>

record buy_response =
  b_newWallet :: number
  b_gameName :: string
  b_price :: number
  b_status :: string

text \<open>The reads and checks made before the transaction starts (lines 1482 to 1501).\<close>

definition buy_read :: "state \<Rightarrow> user_id \<Rightarrow> game_id \<Rightarrow> error + (user \<times> game)" where
  "buy_read s userId gameId =
     (if gameId = [] then Inl MissingGameId
      else case users s userId of
        None \<Rightarrow> Inl UserNotFound
      | Some user \<Rightarrow>
          (case games s gameId of
             None \<Rightarrow> Inl GameNotFound
           | Some game \<Rightarrow>
               if wallet user < game_price game then Inl InsufficientFunds
               else Inr (user, game)))"

text \<open>
  The body of \<^verbatim>\<open>runTransaction\<close> (lines 1505 to 1529). It issues writes only; the values
  written come from \<open>user\<close> and \<open>game\<close>, the documents read before the transaction.
  \<^verbatim>\<open>transaction.update\<close> sets the named field of the document as it is at commit and
  aborts the transaction when the document does not exist.
\<close>

definition buy_txn :: "user_id \<Rightarrow> game_id \<Rightarrow> user \<Rightarrow> game \<Rightarrow> state \<Rightarrow> state option" where
  "buy_txn userId gameId user game s =
     (case users s userId of
        None \<Rightarrow> None
      | Some cu \<Rightarrow>
          (case games s gameId of
             None \<Rightarrow> None
           | Some cg \<Rightarrow>
               Some (s\<lparr> users := (users s)(userId \<mapsto> cu\<lparr>wallet := wallet user - game_price game\<rparr>),
                        orders := orders s @
                          [\<lparr> o_userId = userId, o_gameId = gameId, o_gameName = game_name game,
                             o_quantity = 1, o_price = game_price game,
                             o_status = ''completed'', o_redeemCode = Some [] \<rparr>],
                        games := (games s)(gameId \<mapsto>
                          cg\<lparr>game_totalSold := js_or (game_totalSold game) 0 + 1\<rparr>),
                        library := (library s)(userId := insert gameId (library s userId)) \<rparr>)))"

text \<open>
  The handler. \<open>txn_ok\<close> is False when the store aborts the transaction; the handler
  then answers 500 from its \<^verbatim>\<open>catch\<close> block.
\<close>

definition buy :: "bool \<Rightarrow> state \<Rightarrow> user_id \<Rightarrow> game_id \<Rightarrow> (error + buy_response) \<times> state" where
  "buy txn_ok s userId gameId =
     (case buy_read s userId gameId of
        Inl e \<Rightarrow> (Inl e, s)
      | Inr (user, game) \<Rightarrow>
          (case (if txn_ok then buy_txn userId gameId user game s else None) of
             None \<Rightarrow> (Inl ServerError, s)
           | Some s' \<Rightarrow>
               (case users s' userId of
                  None \<Rightarrow> (Inl ServerError, s')
                | Some u' \<Rightarrow>
                    (Inr \<lparr> b_newWallet = wallet u', b_gameName = game_name game,
                           b_price = game_price game, b_status = ''completed'' \<rparr>, s'))))"

subsection \<open>POST /api/users/cart/checkout\<close>

text \<open>Lines 1617 to 1632: the cart lines, and those of games the user does not own.\<close>

definition cartItems :: "state \<Rightarrow> user_id \<Rightarrow> (game_id \<times> number) list" where
  "cartItems s userId = map (\<lambda>doc. (fst doc, js_or (snd doc) 1)) (cart s userId)"

definition filteredCart :: "state \<Rightarrow> user_id \<Rightarrow> (game_id \<times> number) list" where
  "filteredCart s userId = filter (\<lambda>item. fst item \<notin> library s userId) (cartItems s userId)"

text \<open>
  Lines 1639 to 1653: the games of the filtered cart, fetched ten identifiers at a time
  and collected in \<^verbatim>\<open>gameMap\<close>. A game that does not exist has no entry.
\<close>

definition gameMap :: "state \<Rightarrow> (game_id \<times> number) list \<Rightarrow> (game_id \<rightharpoonup> game)" where
  "gameMap s items = (\<lambda>gameId. if gameId \<in> set (map fst items) then games s gameId else None)"

text \<open>Lines 1656 to 1659: \<^verbatim>\<open>sum + (game?.price || 0) * item.quantity\<close>.\<close>

definition line_price :: "(game_id \<rightharpoonup> game) \<Rightarrow> (game_id \<times> number) \<Rightarrow> number" where
  "line_price gm item =
     (case gm (fst item) of None \<Rightarrow> 0 | Some g \<Rightarrow> js_or (game_price g) 0) * snd item"

definition cart_total :: "(game_id \<rightharpoonup> game) \<Rightarrow> (game_id \<times> number) list \<Rightarrow> number" where
  "cart_total gm items = foldl (\<lambda>acc item. acc + line_price gm item) 0 items"

text \<open>Lines 1664 to 1673: the lookup of the promo code.\<close>

fun findByCode :: "string \<Rightarrow> discount list \<Rightarrow> nat option" where
  "findByCode c [] = None"
| "findByCode c (d # ds) = (if d_code d = c then Some 0 else map_option Suc (findByCode c ds))"

definition lookup_promo :: "discount list \<Rightarrow> string option \<Rightarrow> (nat \<times> discount) option" where
  "lookup_promo ds promoCode =
     (case promoCode of
        None \<Rightarrow> None
      | Some c \<Rightarrow>
          if c = [] then None
          else (case findByCode (toUpperCase c) ds of
                  None \<Rightarrow> None
                | Some i \<Rightarrow> Some (i, ds ! i)))"

text \<open>Lines 1675 to 1692: the discount a found code gives on the total \<open>tot\<close> at time \<open>now\<close>.\<close>

definition code_discount :: "discount \<Rightarrow> number \<Rightarrow> int \<Rightarrow> number" where
  "code_discount d tot now =
     (if d_isActive d \<and> (case d_expireAt d of None \<Rightarrow> True | Some e \<Rightarrow> e > now) then
        (if d_type d = ''percent'' then (tot * js_or (d_value d) 0) / 100
         else if d_type d = ''fixed'' then js_or (d_value d) 0
         else 0)
      else 0)"

record quote =
  q_cartSnapshot :: "(game_id \<times> number) list"
  q_filteredCart :: "(game_id \<times> number) list"
  q_gameMap :: "game_id \<rightharpoonup> game"
  q_total :: number
  q_discountDoc :: "(nat \<times> discount) option"
  q_discount :: number
  q_finalTotal :: number

text \<open>Lines 1613 to 1696: everything the handler computes before it reads the user.\<close>

definition checkout_quote :: "state \<Rightarrow> user_id \<Rightarrow> string option \<Rightarrow> int \<Rightarrow> error + quote" where
  "checkout_quote s userId promoCode now =
     (if cart s userId = [] then Inl EmptyCart
      else if filteredCart s userId = [] then Inl AllOwned
      else
        (let fc = filteredCart s userId;
             gm = gameMap s fc;
             tot = cart_total gm fc;
             doc = lookup_promo (discounts s) promoCode;
             discount = (case doc of None \<Rightarrow> 0 | Some (i, d) \<Rightarrow> code_discount d tot now)
         in Inr \<lparr> q_cartSnapshot = cart s userId, q_filteredCart = fc, q_gameMap = gm,
                  q_total = tot, q_discountDoc = doc, q_discount = discount,
                  q_finalTotal = max (tot - discount) 0 \<rparr>))"

text \<open>
  Lines 1715 to 1742: the loop of the transaction over the filtered cart. A line whose
  game is not in \<^verbatim>\<open>gameMap\<close> is skipped. \<open>code\<close> is \<^verbatim>\<open>promoCode || ""\<close>.
\<close>

fun settle_lines ::
  "user_id \<Rightarrow> string \<Rightarrow> (game_id \<rightharpoonup> game) \<Rightarrow> (game_id \<times> number) list \<Rightarrow> state \<Rightarrow> state option"
where
  "settle_lines userId code gm [] s = Some s"
| "settle_lines userId code gm (item # items) s =
     (case gm (fst item) of
        None \<Rightarrow> settle_lines userId code gm items s
      | Some game \<Rightarrow>
          (case games s (fst item) of
             None \<Rightarrow> None
           | Some cg \<Rightarrow>
               settle_lines userId code gm items
                 (s\<lparr> orders := orders s @
                        [\<lparr> o_userId = userId, o_gameId = fst item, o_gameName = game_name game,
                           o_quantity = snd item, o_price = game_price game * snd item,
                           o_status = ''completed'', o_redeemCode = Some code \<rparr>],
                      games := (games s)(fst item \<mapsto>
                        cg\<lparr>game_totalSold := js_or (game_totalSold game) 0 + snd item\<rparr>),
                      library := (library s)(userId := insert (fst item) (library s userId)) \<rparr>)))"

definition promo_text :: "string option \<Rightarrow> string" where
  "promo_text promoCode = (case promoCode of None \<Rightarrow> [] | Some c \<Rightarrow> c)"

text \<open>
  Lines 1709 to 1746: the transaction. The wallet written is computed from \<open>user\<close>, the
  document read before the transaction; the cart documents of the snapshot are deleted.
\<close>

definition checkout_txn ::
  "user_id \<Rightarrow> string option \<Rightarrow> quote \<Rightarrow> user \<Rightarrow> state \<Rightarrow> state option" where
  "checkout_txn userId promoCode q user s =
     (case users s userId of
        None \<Rightarrow> None
      | Some cu \<Rightarrow>
          (case settle_lines userId (promo_text promoCode) (q_gameMap q) (q_filteredCart q)
                  (s\<lparr> users := (users s)(userId \<mapsto>
                         cu\<lparr>wallet := js_or (wallet user) 0 - q_finalTotal q\<rparr>) \<rparr>) of
             None \<Rightarrow> None
           | Some s' \<Rightarrow>
               Some (s'\<lparr> cart := (cart s')(userId :=
                           filter (\<lambda>doc. fst doc \<notin> set (map fst (q_cartSnapshot q)))
                             (cart s' userId)) \<rparr>)))"

text \<open>
  Lines 1749 to 1761: the usage update of the discount document \<open>i\<close>, computed from
  \<open>d\<close>, the data read at line 1673. Lines 1800 to 1806: the compensating update.
\<close>

definition apply_usage :: "user_id \<Rightarrow> nat \<Rightarrow> discount \<Rightarrow> discount list \<Rightarrow> discount list" where
  "apply_usage userId i d ds =
     ds[i := (ds ! i)\<lparr> d_usedBy := arrayUnion (d_usedBy (ds ! i)) userId,
                       d_usedCount := js_or (d_usedCount d) 0 + 1,
                       d_isActive := (js_or (d_usedCount d) 0 + 1 < js_or (d_usageLimit d) 1) \<rparr>]"

definition rollback_usage :: "user_id \<Rightarrow> nat \<Rightarrow> discount \<Rightarrow> discount list \<Rightarrow> discount list" where
  "rollback_usage userId i d ds =
     ds[i := (ds ! i)\<lparr> d_usedCount := max (js_or (d_usedCount d) 1 - 1) 0,
                       d_usedBy := arrayRemove (d_usedBy (ds ! i)) userId,
                       d_isActive := True \<rparr>]"

record env =
  commit_ok :: bool
  usage_update_ok :: bool
  respond_ok :: bool
  rollback_ok :: bool

record checkout_line =
  l_gameId :: game_id
  l_quantity :: number
  l_status :: string
  l_redeemCode :: string

record checkout_response =
  r_newWallet :: number
  r_discount :: number
  r_total :: number
  r_finalTotal :: number
  r_orders :: "checkout_line list"

definition usage_step :: "env \<Rightarrow> user_id \<Rightarrow> quote \<Rightarrow> state \<Rightarrow> bool \<times> state" where
  "usage_step e userId q s =
     (case q_discountDoc q of
        None \<Rightarrow> (False, s)
      | Some (i, d) \<Rightarrow>
          if usage_update_ok e \<and> i < length (discounts s)
          then (True, s\<lparr> discounts := apply_usage userId i d (discounts s) \<rparr>)
          else (False, s))"

definition rollback_step :: "env \<Rightarrow> user_id \<Rightarrow> quote \<Rightarrow> bool \<Rightarrow> state \<Rightarrow> state" where
  "rollback_step e userId q promoCodeUsed s =
     (case q_discountDoc q of
        None \<Rightarrow> s
      | Some (i, d) \<Rightarrow>
          if promoCodeUsed \<and> userId \<noteq> [] \<and> rollback_ok e \<and> i < length (discounts s)
          then s\<lparr> discounts := rollback_usage userId i d (discounts s) \<rparr>
          else s)"

definition checkout_reply :: "string option \<Rightarrow> quote \<Rightarrow> user \<Rightarrow> checkout_response" where
  "checkout_reply promoCode q user =
     \<lparr> r_newWallet = wallet user - q_finalTotal q,
       r_discount = q_discount q,
       r_total = q_total q,
       r_finalTotal = q_finalTotal q,
       r_orders = map (\<lambda>item. \<lparr> l_gameId = fst item, l_quantity = snd item,
                                 l_status = ''completed'',
                                 l_redeemCode = promo_text promoCode \<rparr>) (q_filteredCart q) \<rparr>"

text \<open>
  Lines 1613 to 1706: all the handler reads and tests before the transaction starts.
\<close>

definition checkout_read ::
  "state \<Rightarrow> user_id \<Rightarrow> string option \<Rightarrow> int \<Rightarrow> error + (quote \<times> user)" where
  "checkout_read s userId promoCode now =
     (case checkout_quote s userId promoCode now of
        Inl err \<Rightarrow> Inl err
      | Inr q \<Rightarrow>
          (case users s userId of
             None \<Rightarrow> Inl UserNotFound
           | Some user \<Rightarrow>
               if js_or (wallet user) 0 < q_finalTotal q then Inl InsufficientFunds
               else Inr (q, user)))"

text \<open>
  The handler: the reads, the transaction, the usage update of the discount code, the
  response; the \<^verbatim>\<open>catch\<close> block with the compensating update when the response fails.
\<close>

definition checkout ::
  "env \<Rightarrow> state \<Rightarrow> user_id \<Rightarrow> string option \<Rightarrow> int \<Rightarrow> (error + checkout_response) \<times> state"
where
  "checkout e s userId promoCode now =
     (case checkout_read s userId promoCode now of
        Inl err \<Rightarrow> (Inl err, s)
      | Inr (q, user) \<Rightarrow>
          (case (if commit_ok e then checkout_txn userId promoCode q user s else None) of
             None \<Rightarrow> (Inl ServerError, s)
           | Some s1 \<Rightarrow>
               (let (promoCodeUsed, s2) = usage_step e userId q s1
                in if respond_ok e then (Inr (checkout_reply promoCode q user), s2)
                   else (Inl ServerError, rollback_step e userId q promoCodeUsed s2))))"

subsection \<open>POST /api/orders\<close>

text \<open>
  Lines 1242 to 1291: the order is stored as the request gives it; when a redeem code is
  given and found (compared as it is, without normalisation), its \<^verbatim>\<open>usedCount\<close> is
  raised by one. \<open>redeem_text\<close> is \<^verbatim>\<open>redeemCode || null\<close>.
\<close>

definition redeem_text :: "string option \<Rightarrow> string option" where
  "redeem_text redeemCode =
     (case redeemCode of None \<Rightarrow> None | Some c \<Rightarrow> if c = [] then None else Some c)"

definition post_orders ::
  "state \<Rightarrow> user_id \<Rightarrow> game_id \<Rightarrow> string \<Rightarrow> number \<Rightarrow> number \<Rightarrow> string option \<Rightarrow> state" where
  "post_orders s userId gameId gameName price quantity redeemCode =
     (let s1 = s\<lparr> orders := orders s @
                  [\<lparr> o_userId = userId, o_gameId = gameId, o_gameName = gameName,
                     o_quantity = quantity, o_price = price,
                     o_status = ''completed'', o_redeemCode = redeem_text redeemCode \<rparr>] \<rparr>
      in case redeem_text redeemCode of
           None \<Rightarrow> s1
         | Some c \<Rightarrow>
             (case findByCode c (discounts s1) of
                None \<Rightarrow> s1
              | Some i \<Rightarrow>
                  s1\<lparr> discounts := (discounts s1)
                        [i := (discounts s1 ! i)
                           \<lparr> d_usedCount := js_or (d_usedCount (discounts s1 ! i)) 0 + 1 \<rparr>] \<rparr>))"

subsection \<open>GET /api/discounts/check/:code\<close>

text \<open>
  Lines 1122 to 1153. Each constructor stands for one response of the handler, in the
  order of the source: 404 (code not found), then the 400 messages "this code cannot be
  used", "this code has been used up", "the code has expired", "the minimum spend is
  more than ..." and "you have already used this code"; \<open>CheckFailed\<close> is the 500 of the
  \<^verbatim>\<open>catch\<close> block, reached when \<^verbatim>\<open>expireAt\<close> is missing. The query parameter
  \<^verbatim>\<open>total\<close> is \<open>None\<close> when it is absent, empty or not a number: the minimum-spend
  test is then skipped.
\<close>

datatype check_error =
    CodeNotFound
  | CodeUnusable
  | CodeUsedUp
  | CodeExpired
  | BelowMinSpend number
  | AlreadyUsed
  | CheckFailed

definition check_code ::
  "discount list \<Rightarrow> string \<Rightarrow> user_id option \<Rightarrow> number option \<Rightarrow> int
     \<Rightarrow> check_error + (nat \<times> discount)" where
  "check_code ds code userId tot now =
     (case findByCode (toUpperCase (trim code)) ds of
        None \<Rightarrow> Inl CodeNotFound
      | Some i \<Rightarrow>
          (let dat = ds ! i in
           if \<not> d_isActive dat then Inl CodeUnusable
           else if d_usedCount dat \<ge> d_usageLimit dat then Inl CodeUsedUp
           else
             (case d_expireAt dat of
                None \<Rightarrow> Inl CheckFailed
              | Some ex \<Rightarrow>
                  if ex < now then Inl CodeExpired
                  else if d_minSpend dat \<noteq> 0
                          \<and> (case tot of None \<Rightarrow> False | Some t \<Rightarrow> t < d_minSpend dat)
                    then Inl (BelowMinSpend (d_minSpend dat))
                  else if (case userId of None \<Rightarrow> False | Some u \<Rightarrow> u \<in> set (d_usedBy dat))
                    then Inl AlreadyUsed
                  else Inr (i, dat))))"

subsection \<open>Schedules of two concurrent settlements\<close>

text \<open>
  Every \<^verbatim>\<open>await\<close> of the handler is a point where another request may run. In this
  schedule two requests of the same user for the same game both finish their reads
  (line 1489) before either transaction commits; the transactions then commit one after
  the other.
\<close>

definition two_buys_interleaved :: "state \<Rightarrow> user_id \<Rightarrow> game_id \<Rightarrow> state option" where
  "two_buys_interleaved s userId gameId =
     (case buy_read s userId gameId of
        Inl e \<Rightarrow> None
      | Inr (userA, gameA) \<Rightarrow>
          (case buy_read s userId gameId of
             Inl e \<Rightarrow> None
           | Inr (userB, gameB) \<Rightarrow>
               (case buy_txn userId gameId userA gameA s of
                  None \<Rightarrow> None
                | Some s1 \<Rightarrow> buy_txn userId gameId userB gameB s1)))"

text \<open>
  The same schedule for the checkouts of two users: both finish their reads (lines 1613
  to 1706) before either transaction commits.
\<close>

definition two_checkouts_interleaved ::
  "state \<Rightarrow> user_id \<Rightarrow> user_id \<Rightarrow> int \<Rightarrow> state option" where
  "two_checkouts_interleaved s userIdA userIdB now =
     (case checkout_read s userIdA None now of
        Inl e \<Rightarrow> None
      | Inr (qA, userA) \<Rightarrow>
          (case checkout_read s userIdB None now of
             Inl e \<Rightarrow> None
           | Inr (qB, userB) \<Rightarrow>
               (case checkout_txn userIdA None qA userA s of
                  None \<Rightarrow> None
                | Some s1 \<Rightarrow> checkout_txn userIdB None qB userB s1)))"

subsection \<open>Concrete stores\<close>

definition all_ok :: env where
  "all_ok = \<lparr> commit_ok = True, usage_update_ok = True, respond_ok = True, rollback_ok = True \<rparr>"

definition reply_fails :: env where
  "reply_fails = \<lparr> commit_ok = True, usage_update_ok = True, respond_ok = False, rollback_ok = True \<rparr>"

definition code_of :: "string \<Rightarrow> string \<Rightarrow> number \<Rightarrow> discount" where
  "code_of c t v =
     \<lparr> d_code = c, d_type = t, d_value = v, d_minSpend = 0, d_maxDiscount = None,
       d_expireAt = Some 1000, d_isActive = True, d_usedBy = [], d_usedCount = 0,
       d_usageLimit = 1 \<rparr>"

text \<open>
  One game \<open>''g''\<close> of price \<open>p\<close>, users \<open>''a''\<close> and \<open>''b''\<close> with \<open>w\<close> in the wallet and
  the game in the cart, and the discount codes \<open>ds\<close>.
\<close>

definition shop :: "number \<Rightarrow> number \<Rightarrow> discount list \<Rightarrow> state" where
  "shop p w ds =
     \<lparr> users = [''a'' \<mapsto> \<lparr> wallet = w \<rparr>, ''b'' \<mapsto> \<lparr> wallet = w \<rparr>],
       games = [''g'' \<mapsto> \<lparr> game_name = ''G'', game_price = p, game_totalSold = 0,
                           game_isActive = True \<rparr>],
       orders = [],
       library = (\<lambda>u. {}),
       cart = (\<lambda>u. [(''g'', 1)]),
       discounts = ds \<rparr>"

text \<open>The shop with its only game switched off.\<close>

definition shop_inactive :: state where
  "shop_inactive =
     (shop 60 100 [])\<lparr> games := [''g'' \<mapsto> \<lparr> game_name = ''G'', game_price = 60,
                                            game_totalSold = 0, game_isActive = False \<rparr>] \<rparr>"

text \<open>
  Discount codes: one with a minimum spend of 100, a 10 percent code capped at 5, and
  one that user \<open>''b''\<close> has already used once.
\<close>

definition code_min100 :: discount where
  "code_min100 = (code_of ''MIN100'' ''fixed'' 10)\<lparr> d_minSpend := 100 \<rparr>"

definition code_cap5 :: discount where
  "code_cap5 = (code_of ''CAP5'' ''percent'' 10)\<lparr> d_maxDiscount := Some 5, d_usageLimit := 10 \<rparr>"

definition code_used_once :: discount where
  "code_used_once =
     (code_of ''FIXED10'' ''fixed'' 10)\<lparr> d_usedBy := [''b''], d_usedCount := 1, d_usageLimit := 5 \<rparr>"

section \<open>Properties\<close>

subsection \<open>What the steps of a handler leave alone\<close>

lemma js_or_zero: "js_or x 0 = x"
  by (simp add: js_or_def)

lemma settle_lines_frame:
  "settle_lines userId code gm items s = Some s' \<Longrightarrow>
     users s' = users s \<and> discounts s' = discounts s \<and> cart s' = cart s"
  by (induction items arbitrary: s) (auto split: option.splits)

lemma checkout_txn_users:
  assumes "checkout_txn userId promoCode q user s = Some s1" and "users s userId = Some cu"
  shows "users s1 = (users s)(userId \<mapsto> cu\<lparr>wallet := wallet user - q_finalTotal q\<rparr>)"
  using assms
  by (auto simp: checkout_txn_def js_or_zero split: option.splits dest!: settle_lines_frame)

lemma checkout_txn_discounts:
  "checkout_txn userId promoCode q user s = Some s1 \<Longrightarrow> discounts s1 = discounts s"
  by (auto simp: checkout_txn_def split: option.splits dest!: settle_lines_frame)

lemma usage_step_users: "users (snd (usage_step e userId q s)) = users s"
  by (simp add: usage_step_def split: option.splits prod.splits)

lemma checkout_quote_final_nonneg: "checkout_quote s userId promoCode now = Inr q \<Longrightarrow> 0 \<le> q_finalTotal q"
  by (auto simp: checkout_quote_def Let_def split: if_splits)

lemma checkout_InrD:
  assumes "checkout e s userId promoCode now = (Inr r, s')"
  shows "\<exists>q user s1. checkout_quote s userId promoCode now = Inr q \<and> users s userId = Some user
           \<and> \<not> wallet user < q_finalTotal q \<and> commit_ok e
           \<and> checkout_txn userId promoCode q user s = Some s1 \<and> respond_ok e
           \<and> s' = snd (usage_step e userId q s1) \<and> r = checkout_reply promoCode q user"
  using assms
  by (auto simp: checkout_def checkout_read_def js_or_zero Let_def
           split: sum.splits option.splits if_splits prod.splits)

lemma buy_InrD:
  assumes "buy txn_ok s userId gameId = (Inr br, s')"
  shows "\<exists>user game. users s userId = Some user \<and> games s gameId = Some game
           \<and> \<not> wallet user < game_price game \<and> buy_txn userId gameId user game s = Some s'
           \<and> b_price br = game_price game"
  using assms
  by (auto simp: buy_def buy_read_def split: sum.splits option.splits if_splits prod.splits)

lemma findByCode_Some:
  "findByCode c ds = Some i \<Longrightarrow> i < length ds \<and> d_code (ds ! i) = c"
  by (induction ds arbitrary: i) (auto split: if_splits)

lemma checkout_quote_doc:
  "checkout_quote s userId promoCode now = Inr q \<Longrightarrow>
     q_discountDoc q = lookup_promo (discounts s) promoCode"
  by (auto simp: checkout_quote_def Let_def split: if_splits)

lemma settle_lines_skip:
  "settle_lines userId code gm items s = Some s' \<Longrightarrow> gm gameId = None \<Longrightarrow>
     games s' gameId = games s gameId
     \<and> (gameId \<in> library s' userId) = (gameId \<in> library s userId)
     \<and> filter (\<lambda>ord. o_gameId ord = gameId) (orders s') = filter (\<lambda>ord. o_gameId ord = gameId) (orders s)"
proof (induction items arbitrary: s)
  case Nil
  then show ?case by simp
next
  case (Cons item items)
  show ?case
  proof (cases "gm (fst item)")
    case None
    with Cons show ?thesis by simp
  next
    case (Some game)
    with Cons.prems have ne: "fst item \<noteq> gameId" by auto
    from Cons.prems Some obtain cg where cg: "games s (fst item) = Some cg"
      by (auto split: option.splits)
    from Cons.prems Some cg Cons.IH [OF _ Cons.prems(2)] ne show ?thesis
      by (auto split: option.splits)
  qed
qed

lemma checkout_quote_parts:
  "checkout_quote s userId promoCode now = Inr q \<Longrightarrow>
     q_gameMap q = gameMap s (q_filteredCart q)
     \<and> q_discount q = (case lookup_promo (discounts s) promoCode of
                         None \<Rightarrow> 0 | Some (i, d) \<Rightarrow> code_discount d (q_total q) now)
     \<and> q_finalTotal q = max (q_total q - q_discount q) 0"
  by (auto simp: checkout_quote_def Let_def split: if_splits option.splits)

lemma usage_step_frame:
  "games (snd (usage_step e userId q s)) = games s
   \<and> orders (snd (usage_step e userId q s)) = orders s
   \<and> library (snd (usage_step e userId q s)) = library s"
  by (simp add: usage_step_def split: option.splits prod.splits)

lemma checkout_txn_skip:
  assumes "checkout_txn userId promoCode q user s = Some s1" and "q_gameMap q gameId = None"
  shows "games s1 gameId = games s gameId
     \<and> (gameId \<in> library s1 userId) = (gameId \<in> library s userId)
     \<and> filter (\<lambda>ord. o_gameId ord = gameId) (orders s1) = filter (\<lambda>ord. o_gameId ord = gameId) (orders s)"
  using assms
  by (auto simp: checkout_txn_def split: option.splits dest!: settle_lines_skip)

lemma checkout_reply_of_quote:
  assumes "checkout e s userId promoCode now = (Inr r, s')"
  shows "\<exists>q. checkout_quote s userId promoCode now = Inr q
             \<and> r_discount r = q_discount q \<and> r_total r = q_total q
             \<and> r_finalTotal r = q_finalTotal q"
  using checkout_InrD [OF assms] by (auto simp: checkout_reply_def)

lemma checkout_zero_discount:
  assumes "checkout e s userId promoCode now = (Inr r, s')"
      and "(case lookup_promo (discounts s) promoCode of
              None \<Rightarrow> True | Some (i, d) \<Rightarrow> code_discount d (r_total r) now = 0)"
  shows "r_discount r = 0 \<and> r_finalTotal r = max (r_total r) 0"
proof -
  from checkout_reply_of_quote [OF assms(1)] obtain q where
    q: "checkout_quote s userId promoCode now = Inr q" "r_discount r = q_discount q"
       "r_total r = q_total q" "r_finalTotal r = q_finalTotal q"
    by blast
  from checkout_quote_parts [OF q(1)] q assms(2) show ?thesis
    by (auto split: option.splits)
qed

lemma check_code_reasons:
  "(check_code ds code userId tot now = Inl CodeNotFound)
     = (findByCode (toUpperCase (trim code)) ds = None)"
  "(check_code ds code userId tot now = Inl CodeUnusable)
     = (\<exists>i. findByCode (toUpperCase (trim code)) ds = Some i \<and> \<not> d_isActive (ds ! i))"
  "(check_code ds code userId tot now = Inl CodeUsedUp)
     = (\<exists>i. findByCode (toUpperCase (trim code)) ds = Some i \<and> d_isActive (ds ! i)
            \<and> d_usageLimit (ds ! i) \<le> d_usedCount (ds ! i))"
  "(check_code ds code userId tot now = Inl CodeExpired)
     = (\<exists>i ex. findByCode (toUpperCase (trim code)) ds = Some i \<and> d_isActive (ds ! i)
            \<and> d_usedCount (ds ! i) < d_usageLimit (ds ! i)
            \<and> d_expireAt (ds ! i) = Some ex \<and> ex < now)"
  "(check_code ds code userId tot now = Inl (BelowMinSpend m))
     = (\<exists>i ex t. findByCode (toUpperCase (trim code)) ds = Some i \<and> d_isActive (ds ! i)
            \<and> d_usedCount (ds ! i) < d_usageLimit (ds ! i)
            \<and> d_expireAt (ds ! i) = Some ex \<and> now \<le> ex
            \<and> m = d_minSpend (ds ! i) \<and> m \<noteq> 0 \<and> tot = Some t \<and> t < m)"
  "(check_code ds code userId tot now = Inl AlreadyUsed)
     = (\<exists>i ex u. findByCode (toUpperCase (trim code)) ds = Some i \<and> d_isActive (ds ! i)
            \<and> d_usedCount (ds ! i) < d_usageLimit (ds ! i)
            \<and> d_expireAt (ds ! i) = Some ex \<and> now \<le> ex
            \<and> \<not> (d_minSpend (ds ! i) \<noteq> 0 \<and> (case tot of None \<Rightarrow> False
                                                | Some t \<Rightarrow> t < d_minSpend (ds ! i)))
            \<and> userId = Some u \<and> u \<in> set (d_usedBy (ds ! i)))"
  by (auto simp: check_code_def Let_def split: option.splits if_splits)

lemma check_code_accepts:
  "check_code ds code userId tot now = Inr (i, d) \<Longrightarrow>
     findByCode (toUpperCase (trim code)) ds = Some i \<and> d = ds ! i \<and> d_isActive d
     \<and> d_usedCount d < d_usageLimit d
     \<and> (\<exists>ex. d_expireAt d = Some ex \<and> now \<le> ex)
     \<and> \<not> (d_minSpend d \<noteq> 0 \<and> (case tot of None \<Rightarrow> False | Some t \<Rightarrow> t < d_minSpend d))
     \<and> \<not> (case userId of None \<Rightarrow> False | Some u \<Rightarrow> u \<in> set (d_usedBy d))"
  by (auto simp: check_code_def Let_def split: option.splits if_splits)

subsection \<open>The discount of a code that the checkout applies\<close>

text \<open>
  A found code that is active and not expired gives \<open>total * value / 100\<close> when its type
  is percent and \<open>value\<close> when it is fixed; the final total is the total minus the
  discount, and 0 when that is negative.
\<close>

lemma code_discount_accepted:
  assumes "d_isActive d" and "case d_expireAt d of None \<Rightarrow> True | Some ex \<Rightarrow> now < ex"
  shows "code_discount d tot now =
           (if d_type d = ''percent'' then tot * d_value d / 100
            else if d_type d = ''fixed'' then d_value d else 0)"
  using assms by (simp add: code_discount_def js_or_zero)

lemma checkout_discount_of_accepted_code:
  assumes "checkout e s userId (Some c) now = (Inr r, s')" and "c \<noteq> []"
      and "findByCode (toUpperCase c) (discounts s) = Some i"
      and "d_isActive (discounts s ! i)"
      and "case d_expireAt (discounts s ! i) of None \<Rightarrow> True | Some ex \<Rightarrow> now < ex"
  shows "r_discount r =
           (if d_type (discounts s ! i) = ''percent''
              then r_total r * d_value (discounts s ! i) / 100
            else if d_type (discounts s ! i) = ''fixed'' then d_value (discounts s ! i) else 0)
         \<and> r_finalTotal r = max (r_total r - r_discount r) 0 \<and> 0 \<le> r_finalTotal r"
proof -
  from checkout_reply_of_quote [OF assms(1)] obtain q where
    q: "checkout_quote s userId (Some c) now = Inr q" "r_discount r = q_discount q"
       "r_total r = q_total q" "r_finalTotal r = q_finalTotal q"
    by blast
  have "lookup_promo (discounts s) (Some c) = Some (i, discounts s ! i)"
    using assms(2,3) by (simp add: lookup_promo_def)
  with checkout_quote_parts [OF q(1)] q code_discount_accepted [OF assms(4,5)]
  show ?thesis by simp
qed

subsection \<open>No user twice in the users of a code\<close>

text \<open>
  \<open>arrayUnion\<close> and \<open>arrayRemove\<close> keep a list free of duplicates, so neither a checkout,
  whatever its outcome, nor \<open>post_orders\<close> makes a user appear twice in \<open>d_usedBy\<close>.
\<close>

lemma arrayUnion_distinct: "distinct xs \<Longrightarrow> distinct (arrayUnion xs x)"
  by (simp add: arrayUnion_def)

lemma arrayRemove_distinct: "distinct xs \<Longrightarrow> distinct (arrayRemove xs x)"
  by (simp add: arrayRemove_def)

lemma update_usedBy_distinct:
  assumes "\<forall>d \<in> set ds. distinct (d_usedBy d)" and "distinct (d_usedBy d')"
  shows "\<forall>d \<in> set (ds[i := d']). distinct (d_usedBy d)"
  using assms by (auto dest!: set_update_subset_insert [THEN subsetD])

lemma apply_usage_distinct:
  assumes "\<forall>d \<in> set ds. distinct (d_usedBy d)" and "i < length ds"
  shows "\<forall>d \<in> set (apply_usage userId i d0 ds). distinct (d_usedBy d)"
  unfolding apply_usage_def
  by (rule update_usedBy_distinct [OF assms(1)]) (use assms in \<open>simp add: arrayUnion_distinct\<close>)

lemma rollback_usage_distinct:
  assumes "\<forall>d \<in> set ds. distinct (d_usedBy d)" and "i < length ds"
  shows "\<forall>d \<in> set (rollback_usage userId i d0 ds). distinct (d_usedBy d)"
  unfolding rollback_usage_def
  by (rule update_usedBy_distinct [OF assms(1)]) (use assms in \<open>simp add: arrayRemove_distinct\<close>)

lemma usage_step_distinct:
  assumes "\<forall>d \<in> set (discounts s). distinct (d_usedBy d)"
  shows "\<forall>d \<in> set (discounts (snd (usage_step e userId q s))). distinct (d_usedBy d)"
  using assms apply_usage_distinct
  by (auto simp: usage_step_def split: option.splits prod.splits)

lemma rollback_step_distinct:
  assumes "\<forall>d \<in> set (discounts s). distinct (d_usedBy d)"
  shows "\<forall>d \<in> set (discounts (rollback_step e userId q used s)). distinct (d_usedBy d)"
  using assms rollback_usage_distinct
  by (auto simp: rollback_step_def split: option.splits prod.splits)

lemma checkout_usedBy_distinct:
  assumes "\<forall>d \<in> set (discounts s). distinct (d_usedBy d)"
  shows "\<forall>d \<in> set (discounts (snd (checkout e s userId promoCode now))). distinct (d_usedBy d)"
proof (cases "checkout_read s userId promoCode now")
  case (Inl err)
  with assms show ?thesis by (simp add: checkout_def)
next
  case (Inr qu)
  obtain q user where qu: "qu = (q, user)" by (cases qu)
  show ?thesis
  proof (cases "(if commit_ok e then checkout_txn userId promoCode q user s else None)")
    case None
    with Inr qu assms show ?thesis by (simp add: checkout_def)
  next
    case (Some s1)
    then have t: "commit_ok e" "checkout_txn userId promoCode q user s = Some s1"
      by (simp_all split: if_splits)
    from checkout_txn_discounts [OF t(2)] assms
    have d1: "\<forall>d \<in> set (discounts s1). distinct (d_usedBy d)" by simp
    note d2 = usage_step_distinct [OF d1, of e userId q]
    note d3 = rollback_step_distinct [OF d2, of e userId q "fst (usage_step e userId q s1)"]
    from Inr qu t d2 d3 show ?thesis
      by (simp add: checkout_def split_beta)
  qed
qed

lemma map_update_same: "i < length xs \<Longrightarrow> (map f xs)[i := f (xs ! i)] = map f xs"
  by (simp add: list_eq_iff_nth_eq nth_list_update)

lemma post_orders_usedBy:
  "map d_usedBy (discounts (post_orders s userId gameId gameName price quantity redeemCode))
     = map d_usedBy (discounts s)"
  by (auto simp: post_orders_def Let_def map_update map_update_same split: option.splits
           dest!: findByCode_Some)

subsection \<open>What the compensating update writes\<close>

text \<open>
  A checkout whose response fails leaves users, orders, library, games and cart as the
  checkout whose response succeeds: the \<^verbatim>\<open>catch\<close> block writes to the discount code
  only. There it removes the user, switches the code on, and sets the count from \<open>d\<close>,
  the data read before the usage update.
\<close>

lemma checkout_reply_failure_keeps_settlement:
  "users (snd (checkout (e\<lparr>respond_ok := False\<rparr>) s userId promoCode now))
     = users (snd (checkout (e\<lparr>respond_ok := True\<rparr>) s userId promoCode now))
   \<and> orders (snd (checkout (e\<lparr>respond_ok := False\<rparr>) s userId promoCode now))
     = orders (snd (checkout (e\<lparr>respond_ok := True\<rparr>) s userId promoCode now))
   \<and> library (snd (checkout (e\<lparr>respond_ok := False\<rparr>) s userId promoCode now))
     = library (snd (checkout (e\<lparr>respond_ok := True\<rparr>) s userId promoCode now))
   \<and> games (snd (checkout (e\<lparr>respond_ok := False\<rparr>) s userId promoCode now))
     = games (snd (checkout (e\<lparr>respond_ok := True\<rparr>) s userId promoCode now))
   \<and> cart (snd (checkout (e\<lparr>respond_ok := False\<rparr>) s userId promoCode now))
     = cart (snd (checkout (e\<lparr>respond_ok := True\<rparr>) s userId promoCode now))"
  by (simp add: checkout_def usage_step_def rollback_step_def split_beta
           split: sum.splits option.splits)

lemma rollback_usage_result:
  assumes "i < length ds"
  shows "d_usedCount (rollback_usage userId i d ds ! i) = max (js_or (d_usedCount d) 1 - 1) 0
       \<and> 0 \<le> d_usedCount (rollback_usage userId i d ds ! i)
       \<and> userId \<notin> set (d_usedBy (rollback_usage userId i d ds ! i))
       \<and> d_isActive (rollback_usage userId i d ds ! i)"
  using assms by (simp add: rollback_usage_def arrayRemove_def)

subsection \<open>The sold counter in a direct purchase\<close>

lemma buy_totalSold:
  assumes "buy txn_ok s userId gameId = (Inr br, s')" and "games s gameId = Some g"
  shows "map_option game_totalSold (games s' gameId) = Some (game_totalSold g + 1)
       \<and> orders s' = orders s @
            [\<lparr> o_userId = userId, o_gameId = gameId, o_gameName = game_name g, o_quantity = 1,
               o_price = game_price g, o_status = ''completed'', o_redeemCode = Some [] \<rparr>]"
  using buy_InrD [OF assms(1)] assms(2)
  by (auto simp: buy_txn_def js_or_zero split: option.splits)

subsection \<open>The wallet\<close>

text \<open>
  A successful settlement that runs on its own leaves in the wallet the balance read
  minus the final total. The final total of a checkout is never negative; that of a
  direct purchase is the stored price of the game, whatever its sign.
\<close>

lemma settlement_debits_wallet:
  assumes "users s userId = Some u"
  shows "(buy txn_ok s userId gameId = (Inr br, sb) \<longrightarrow>
            users sb userId = Some (u\<lparr>wallet := wallet u - b_price br\<rparr>)
            \<and> map_option game_price (games s gameId) = Some (b_price br))
       \<and> (checkout e s userId promoCode now = (Inr r, sc) \<longrightarrow>
            users sc userId = Some (u\<lparr>wallet := wallet u - r_finalTotal r\<rparr>) \<and> 0 \<le> r_finalTotal r)"
proof (intro conjI impI)
  assume b: "buy txn_ok s userId gameId = (Inr br, sb)"
  from buy_InrD [OF b] obtain user game where
    g: "users s userId = Some user" "games s gameId = Some game"
       "buy_txn userId gameId user game s = Some sb" "b_price br = game_price game"
    by blast
  from g assms show "users sb userId = Some (u\<lparr>wallet := wallet u - b_price br\<rparr>)"
    by (auto simp: buy_txn_def)
  from g show "map_option game_price (games s gameId) = Some (b_price br)"
    by simp
next
  assume c: "checkout e s userId promoCode now = (Inr r, sc)"
  from checkout_InrD [OF c] obtain q user s1 where
    q: "checkout_quote s userId promoCode now = Inr q" "users s userId = Some user"
       "checkout_txn userId promoCode q user s = Some s1"
       "sc = snd (usage_step e userId q s1)" "r = checkout_reply promoCode q user"
    by blast
  from q assms checkout_txn_users [OF q(3) q(2)]
  show "users sc userId = Some (u\<lparr>wallet := wallet u - r_finalTotal r\<rparr>)"
    by (simp add: usage_step_users checkout_reply_def)
  from q checkout_quote_final_nonneg [OF q(1)] show "0 \<le> r_finalTotal r"
    by (simp add: checkout_reply_def)
qed

text \<open>
  Claim C1, evaluated on a direct purchase of a game stored with the price -5, as
  \<^verbatim>\<open>POST /api/games\<close> stores it (line 550 keeps \<^verbatim>\<open>Number(price)\<close> untested). The
  purchase succeeds with the final total -5 and the wallet goes from 100 to 105, where
  the claim has a final total that is not negative. The checkout of the same cart
  settles 0: line 1696 bounds its final total, the direct purchase has no such bound.
\<close>

theorem C1_negative_final_total:
  "map_option game_price (games (shop (-5) 100 []) ''g'') = Some (-5)
   \<and> fst (buy True (shop (-5) 100 []) ''a'' ''g'')
       = Inr \<lparr>b_newWallet = 105, b_gameName = ''G'', b_price = -5, b_status = ''completed''\<rparr>
   \<and> users (snd (buy True (shop (-5) 100 []) ''a'' ''g'')) ''a'' = Some \<lparr>wallet = 105\<rparr>
   \<and> fst (checkout all_ok (shop (-5) 100 []) ''a'' None 0)
       = Inr \<lparr>r_newWallet = 100, r_discount = 0, r_total = -5, r_finalTotal = 0,
              r_orders = [\<lparr>l_gameId = ''g'', l_quantity = 1, l_status = ''completed'',
                            l_redeemCode = []\<rparr>]\<rparr>"
  by code_simp

text \<open>
  Claim C2. When the wallet holds less than the final total, a direct purchase and a
  checkout both answer with insufficient funds, and the store is the one they started
  from: wallet, orders, sold counters, library, cart and discount codes are unchanged.
\<close>

theorem C2_insufficient_funds_no_mutation:
  assumes "users s userId = Some u"
  shows "(gameId \<noteq> [] \<and> games s gameId = Some g \<and> wallet u < game_price g \<longrightarrow>
            buy txn_ok s userId gameId = (Inl InsufficientFunds, s))
       \<and> (checkout_quote s userId promoCode now = Inr q \<and> wallet u < q_finalTotal q \<longrightarrow>
            checkout e s userId promoCode now = (Inl InsufficientFunds, s))"
  using assms by (simp add: buy_def buy_read_def checkout_def checkout_read_def js_or_zero)

theorem C2_witness:
  "buy True (shop 60 50 []) ''a'' ''g'' = (Inl InsufficientFunds, shop 60 50 [])
   \<and> checkout all_ok (shop 60 50 []) ''a'' None 0 = (Inl InsufficientFunds, shop 60 50 [])"
proof -
  let ?s = "shop 60 50 []"
  let ?g = "\<lparr>game_name = ''G'', game_price = 60, game_totalSold = 0, game_isActive = True\<rparr>"
  have u: "users ?s ''a'' = Some \<lparr>wallet = 50\<rparr>" by code_simp
  have g: "games ?s ''g'' = Some ?g" by code_simp
  have q: "\<not> isl (checkout_quote ?s ''a'' None 0)" by code_simp
  have q': "checkout_quote ?s ''a'' None 0 = Inr (projr (checkout_quote ?s ''a'' None 0))"
    using q by simp
  have lt: "wallet \<lparr>wallet = 50\<rparr> < q_finalTotal (projr (checkout_quote ?s ''a'' None 0))"
    by code_simp
  from C2_insufficient_funds_no_mutation [OF u, of "''g''" ?g True None 0 _ all_ok] g q' lt
  show ?thesis by simp
qed

subsection \<open>The discount of a checkout\<close>

text \<open>
  Claim C3, evaluated on the store of its own scenario: a 10 percent code whose
  \<open>d_maxDiscount\<close> is 5, on a cart of 200. The checkout computes the discount at lines
  1685 to 1689 and never reads \<open>d_maxDiscount\<close>: the discount is 20 and the final total
  180, where the claim has 5 and 195.
\<close>

theorem C3_cap_not_applied:
  "d_maxDiscount (discounts (shop 200 500 [code_cap5]) ! 0) = Some 5
   \<and> fst (checkout all_ok (shop 200 500 [code_cap5]) ''a'' (Some ''cap5'') 0)
      = Inr \<lparr>r_newWallet = 320, r_discount = 20, r_total = 200, r_finalTotal = 180,
             r_orders = [\<lparr>l_gameId = ''g'', l_quantity = 1, l_status = ''completed'',
                           l_redeemCode = ''cap5''\<rparr>]\<rparr>"
  by code_simp

text \<open>
  A supplied code that is not found, is switched off, or has an expiry time not later
  than now gives a discount of 0, and the checkout settles the cart at its full total.
\<close>

lemma checkout_code_without_effect:
  assumes "checkout e s userId (Some c) now = (Inr r, s')" and "c \<noteq> []"
      and "findByCode (toUpperCase c) (discounts s) = None
           \<or> (\<exists>i. findByCode (toUpperCase c) (discounts s) = Some i
                 \<and> (\<not> d_isActive (discounts s ! i)
                     \<or> (\<exists>ex. d_expireAt (discounts s ! i) = Some ex \<and> ex \<le> now)))"
  shows "r_discount r = 0 \<and> r_finalTotal r = max (r_total r) 0"
proof -
  have "case lookup_promo (discounts s) (Some c) of
          None \<Rightarrow> True | Some (i, d) \<Rightarrow> code_discount d (r_total r) now = 0"
    using assms(2,3) by (auto simp: lookup_promo_def code_discount_def split: option.splits)
  from checkout_zero_discount [OF assms(1) this] show ?thesis .
qed

text \<open>
  Claim C4, evaluated on three codes that the check of a code before checkout
  (\<open>check_code\<close>) refuses, each with its own reason, and that the checkout applies all
  the same, taking 10 off a cart of 60:
  \<^item> \<open>MIN100\<close> asks for a minimum spend of 100;
  \<^item> \<open>FIXED10\<close> of usage limit 1 has been used once through \<open>post_orders\<close>, which raises
    the count and leaves the code switched on;
  \<^item> \<open>FIXED10\<close> of usage limit 5 is used again by user \<open>''b''\<close>, who is in its \<open>d_usedBy\<close>.
  The checkout tests that a code is found, switched on and not expired (line 1684), and
  neither the usage count, nor the minimum spend, nor \<open>d_usedBy\<close>.
\<close>

theorem C4_ineligible_codes_applied:
  "check_code [code_min100] ''min100'' (Some ''a'') (Some 60) 0 = Inl (BelowMinSpend 100)
   \<and> fst (checkout all_ok (shop 60 100 [code_min100]) ''a'' (Some ''min100'') 0)
      = Inr \<lparr>r_newWallet = 50, r_discount = 10, r_total = 60, r_finalTotal = 50,
             r_orders = [\<lparr>l_gameId = ''g'', l_quantity = 1, l_status = ''completed'',
                           l_redeemCode = ''min100''\<rparr>]\<rparr>
   \<and> map (\<lambda>d. (d_usedCount d, d_usageLimit d, d_isActive d))
        (discounts (post_orders (shop 60 100 [code_of ''FIXED10'' ''fixed'' 10])
                      ''b'' ''g'' ''G'' 60 1 (Some ''FIXED10'')))
      = [(1, 1, True)]
   \<and> check_code (discounts (post_orders (shop 60 100 [code_of ''FIXED10'' ''fixed'' 10])
                                ''b'' ''g'' ''G'' 60 1 (Some ''FIXED10'')))
        ''fixed10'' (Some ''a'') (Some 60) 0
      = Inl CodeUsedUp
   \<and> fst (checkout all_ok (post_orders (shop 60 100 [code_of ''FIXED10'' ''fixed'' 10])
                              ''b'' ''g'' ''G'' 60 1 (Some ''FIXED10''))
             ''a'' (Some ''fixed10'') 0)
      = Inr \<lparr>r_newWallet = 50, r_discount = 10, r_total = 60, r_finalTotal = 50,
             r_orders = [\<lparr>l_gameId = ''g'', l_quantity = 1, l_status = ''completed'',
                           l_redeemCode = ''fixed10''\<rparr>]\<rparr>
   \<and> check_code [code_used_once] ''fixed10'' (Some ''b'') (Some 60) 0 = Inl AlreadyUsed
   \<and> fst (checkout all_ok (shop 60 100 [code_used_once]) ''b'' (Some ''fixed10'') 0)
      = Inr \<lparr>r_newWallet = 50, r_discount = 10, r_total = 60, r_finalTotal = 50,
             r_orders = [\<lparr>l_gameId = ''g'', l_quantity = 1, l_status = ''completed'',
                           l_redeemCode = ''fixed10''\<rparr>]\<rparr>"
  by code_simp

subsection \<open>Concurrent settlements\<close>

text \<open>
  Claim C5, evaluated on a schedule of two direct purchases of the same user, wallet
  100, game of price 60. Both transactions write the wallet and the sold counter
  computed from the documents read before either began: two orders of 60 are recorded,
  the wallet is debited once (40 is left) and the counter is 1. Run one after the other,
  the second purchase is refused for insufficient funds. In the same schedule the
  checkouts of two users for that game record two orders and leave the counter at 1;
  run one after the other they leave it at 2.
\<close>

theorem C5_lost_update:
  "map_option (\<lambda>s. (map_option wallet (users s ''a''), map o_price (orders s),
                     map_option game_totalSold (games s ''g'')))
     (two_buys_interleaved (shop 60 100 []) ''a'' ''g'')
   = Some (Some 40, [60, 60], Some 1)
   \<and> fst (buy True (snd (buy True (shop 60 100 []) ''a'' ''g'')) ''a'' ''g'') = Inl InsufficientFunds
   \<and> map_option (\<lambda>s. (map o_userId (orders s), map o_quantity (orders s),
                       map_option game_totalSold (games s ''g'')))
       (two_checkouts_interleaved (shop 60 100 []) ''a'' ''b'' 0)
     = Some ([''a'', ''b''], [1, 1], Some 1)
   \<and> map_option game_totalSold
       (games (snd (checkout all_ok (snd (checkout all_ok (shop 60 100 []) ''a'' None 0))
                      ''b'' None 0)) ''g'')
     = Some 2"
  by code_simp

subsection \<open>The usage of a discount code\<close>

text \<open>
  Claim C6, evaluated on two checkouts run one after the other with the code
  \<open>FIXED10\<close> of usage limit 1. The first uses the code up and switches it off; the
  second gets no discount, yet raises the usage count to 2. The same count is reached
  when the second request is \<open>post_orders\<close> with that redeem code. Each user appears once
  in \<open>d_usedBy\<close>.
\<close>

theorem C6_usage_beyond_limit:
  "map (\<lambda>d. (d_usedCount d, d_usageLimit d, d_usedBy d))
     (discounts (snd (checkout all_ok
        (snd (checkout all_ok (shop 60 100 [code_of ''FIXED10'' ''fixed'' 10]) ''a'' (Some ''fixed10'') 0))
        ''b'' (Some ''fixed10'') 0)))
   = [(2, 1, [''a'', ''b''])]
   \<and> map (\<lambda>d. (d_usedCount d, d_usageLimit d))
       (discounts (post_orders
          (snd (checkout all_ok (shop 60 100 [code_of ''FIXED10'' ''fixed'' 10]) ''a'' (Some ''fixed10'') 0))
          ''b'' ''g'' ''G'' 60 1 (Some ''FIXED10'')))
   = [(2, 1)]"
  by code_simp

text \<open>
  Claim C10. A successful checkout whose promo code matches a stored discount code
  updates that code whatever its state: the usage count grows by one, the user is
  added to \<open>usedBy\<close> if not yet there, and the code stays active exactly when the new
  count is below the usage limit (a limit of zero counting as one). Nothing is asked
  of the code being active or unexpired; the witness uses an inactive code.
\<close>

theorem C10_usage_update_unconditional:
  assumes "checkout e s userId (Some c) now = (Inr r, s')"
      and "c \<noteq> []"
      and "findByCode (toUpperCase c) (discounts s) = Some i"
      and "usage_update_ok e"
  shows "i < length (discounts s') \<and>
         d_usedCount (discounts s' ! i) = d_usedCount (discounts s ! i) + 1 \<and>
         d_usedBy (discounts s' ! i) = arrayUnion (d_usedBy (discounts s ! i)) userId \<and>
         set (d_usedBy (discounts s' ! i)) = insert userId (set (d_usedBy (discounts s ! i))) \<and>
         d_isActive (discounts s' ! i)
           = (d_usedCount (discounts s' ! i) < js_or (d_usageLimit (discounts s ! i)) 1) \<and>
         (d_usageLimit (discounts s ! i) \<noteq> 0 \<longrightarrow>
            d_isActive (discounts s' ! i)
              = (d_usedCount (discounts s' ! i) < d_usageLimit (discounts s ! i)))"
proof -
  from checkout_InrD [OF assms(1)] obtain q user s1 where
    q: "checkout_quote s userId (Some c) now = Inr q"
       "checkout_txn userId (Some c) q user s = Some s1"
       "s' = snd (usage_step e userId q s1)"
    by blast
  have len: "i < length (discounts s)"
    using findByCode_Some [OF assms(3)] by simp
  have doc: "q_discountDoc q = Some (i, discounts s ! i)"
    using checkout_quote_doc [OF q(1)] assms(2,3) by (simp add: lookup_promo_def)
  have ds: "discounts s1 = discounts s"
    using checkout_txn_discounts [OF q(2)] .
  have "discounts s' = apply_usage userId i (discounts s ! i) (discounts s)"
    using q(3) doc ds len assms(4) by (simp add: usage_step_def)
  then show ?thesis
    using len by (auto simp: apply_usage_def arrayUnion_def js_or_def)
qed

theorem C10_witness:
  "map (\<lambda>d. (d_usedCount d, d_usedBy d, d_isActive d))
     (discounts (snd (checkout all_ok
        (shop 60 100 [(code_of ''OLD'' ''fixed'' 10)\<lparr>d_isActive := False, d_usageLimit := 5\<rparr>])
        ''a'' (Some ''old'') 0)))
   = [(1, [''a''], True)]"
proof -
  let ?s = "shop 60 100 [(code_of ''OLD'' ''fixed'' 10)\<lparr>d_isActive := False, d_usageLimit := 5\<rparr>]"
  let ?r = "\<lparr>r_newWallet = 40, r_discount = 0, r_total = 60, r_finalTotal = 60,
              r_orders = [\<lparr>l_gameId = ''g'', l_quantity = 1, l_status = ''completed'',
                            l_redeemCode = ''old''\<rparr>]\<rparr>"
  let ?s' = "snd (checkout all_ok ?s ''a'' (Some ''old'') 0)"
  have fc: "fst (checkout all_ok ?s ''a'' (Some ''old'') 0) = Inr ?r" by code_simp
  have c: "checkout all_ok ?s ''a'' (Some ''old'') 0 = (Inr ?r, ?s')"
    using fc by (simp add: prod_eq_iff)
  have n: "''old'' \<noteq> []" by simp
  have f: "findByCode (toUpperCase ''old'') (discounts ?s) = Some 0" by code_simp
  have e: "usage_update_ok all_ok" by code_simp
  have l: "length (discounts ?s') = 1" by code_simp
  have d0: "discounts ?s ! 0 = (code_of ''OLD'' ''fixed'' 10)\<lparr>d_isActive := False, d_usageLimit := 5\<rparr>"
    by (simp add: shop_def)
  from C10_usage_update_unconditional [OF c n f e] l d0
  have "map (\<lambda>d. (d_usedCount d, d_usedBy d, d_isActive d)) (discounts ?s')
          = [(1, [''a''], True)]"
    by (cases "discounts ?s'") (simp_all add: code_of_def arrayUnion_def js_or_def)
  then show ?thesis .
qed

text \<open>
  Claim C9, evaluated on a checkout whose response fails after the usage update. The
  code had been used once; the update sets the count to 2; the compensation is computed
  from the data read before the update and writes 0, not 1.
\<close>

theorem C9_rollback_from_stale_count:
  "map d_usedCount (discounts (shop 60 100 [code_used_once])) = [1]
   \<and> map d_usedCount
       (discounts (snd (checkout all_ok (shop 60 100 [code_used_once]) ''a'' (Some ''fixed10'') 0)))
       = [2]
   \<and> fst (checkout reply_fails (shop 60 100 [code_used_once]) ''a'' (Some ''fixed10'') 0)
       = Inl ServerError
   \<and> map d_usedCount
       (discounts (snd (checkout reply_fails (shop 60 100 [code_used_once]) ''a'' (Some ''fixed10'') 0)))
       = [0]"
  by code_simp
subsection \<open>Orders and the catalogue\<close>

text \<open>
  Claim C7, evaluated on \<open>post_orders\<close>: it records a completed order for the game and
  leaves the game's sold counter at 0, below the number of its completed orders. On the
  same store a direct purchase and a checkout each raise the counter to 1.
\<close>

theorem C7_order_without_sale:
  "length (filter (\<lambda>ord. o_gameId ord = ''g'' \<and> o_status ord = ''completed'')
            (orders (post_orders (shop 60 100 []) ''a'' ''g'' ''G'' 60 1 None))) = 1
   \<and> map_option game_totalSold (games (post_orders (shop 60 100 []) ''a'' ''g'' ''G'' 60 1 None) ''g'')
       = Some 0
   \<and> map_option game_totalSold (games (snd (buy True (shop 60 100 []) ''a'' ''g'')) ''g'') = Some 1
   \<and> map_option game_totalSold (games (snd (checkout all_ok (shop 60 100 []) ''a'' None 0)) ''g'')
       = Some 1"
  by code_simp

text \<open>
  The handlers test that a game exists. A direct purchase of a game that does not exist
  answers "game not found" and leaves the store as it was; a successful checkout
  settles nothing for a cart line whose game does not exist.
\<close>

lemma settlement_of_missing_game:
  "(users s userId = Some u \<and> gameId \<noteq> [] \<and> games s gameId = None \<longrightarrow>
      buy txn_ok s userId gameId = (Inl GameNotFound, s))
   \<and> (checkout e s userId promoCode now = (Inr r, s') \<and> games s gameId = None \<longrightarrow>
        games s' gameId = None
        \<and> (gameId \<in> library s' userId) = (gameId \<in> library s userId)
        \<and> filter (\<lambda>ord. o_gameId ord = gameId) (orders s')
            = filter (\<lambda>ord. o_gameId ord = gameId) (orders s))"
proof -
  have "buy txn_ok s userId gameId = (Inl GameNotFound, s)"
    if "users s userId = Some u \<and> gameId \<noteq> [] \<and> games s gameId = None"
    using that by (simp add: buy_def buy_read_def)
  moreover
  have "games s' gameId = None
        \<and> (gameId \<in> library s' userId) = (gameId \<in> library s userId)
        \<and> filter (\<lambda>ord. o_gameId ord = gameId) (orders s')
            = filter (\<lambda>ord. o_gameId ord = gameId) (orders s)"
    if a: "checkout e s userId promoCode now = (Inr r, s') \<and> games s gameId = None"
  proof -
    from checkout_InrD [of e s userId promoCode now r s'] a obtain q user s1 where
      q: "checkout_quote s userId promoCode now = Inr q"
         "checkout_txn userId promoCode q user s = Some s1"
         "s' = snd (usage_step e userId q s1)"
      by blast
    have "q_gameMap q gameId = None"
      using checkout_quote_parts [OF q(1)] a by (simp add: gameMap_def)
    from checkout_txn_skip [OF q(2) this] a q(3) show ?thesis
      by (simp add: usage_step_frame)
  qed
  ultimately show ?thesis by blast
qed

text \<open>
  Claim C8, evaluated on a game whose active flag is False: the direct purchase and
  the checkout both succeed, record the order and grant the library entry. The
  handlers test that the game exists (lines 1493 and 1717) and never read the flag that
  every game is stored with (line 557) and that both listings of the catalogue filter
  on (lines 620 and 896).
\<close>

theorem C8_inactive_game_settled:
  "map_option game_isActive (games shop_inactive ''g'') = Some False
   \<and> fst (buy True shop_inactive ''a'' ''g'')
       = Inr \<lparr>b_newWallet = 40, b_gameName = ''G'', b_price = 60, b_status = ''completed''\<rparr>
   \<and> ''g'' \<in> library (snd (buy True shop_inactive ''a'' ''g'')) ''a''
   \<and> map o_gameId (orders (snd (buy True shop_inactive ''a'' ''g''))) = [''g'']
   \<and> \<not> isl (fst (checkout all_ok shop_inactive ''a'' None 0))
   \<and> ''g'' \<in> library (snd (checkout all_ok shop_inactive ''a'' None 0)) ''a''
   \<and> map o_gameId (orders (snd (checkout all_ok shop_inactive ''a'' None 0))) = [''g'']"
  by code_simp

end
